theory Spec2Isabelle
  imports Complex_Main "HOL-Library.Sublist"
begin

section \<open>Strings as the two languages read them\<close>

text \<open>
  A string is a list of characters. For the Python snippets a character stands for one
  code point below 256; the whitespace class is the one of \<^verbatim>\<open>str.isspace\<close>,
  which \<^verbatim>\<open>str.split()\<close>, \<^verbatim>\<open>str.strip()\<close> and the regular
  expression class \<^verbatim>\<open>\s\<close> share.
\<close>

definition whitespace_chars :: "char list" where
  "whitespace_chars =
     [CHR 0x09, CHR 0x0A, CHR 0x0B, CHR 0x0C, CHR 0x0D, CHR 0x1C, CHR 0x1D, CHR 0x1E,
      CHR 0x1F, CHR 0x20, CHR 0x85, CHR 0xA0]"

definition isspace :: "char \<Rightarrow> bool" where
  "isspace c = (c \<in> set whitespace_chars)"

definition upper_chars :: "char list" where
  "upper_chars = ''ABCDEFGHIJKLMNOPQRSTUVWXYZ'' @
     [CHR 0xC0, CHR 0xC1, CHR 0xC2, CHR 0xC3, CHR 0xC4, CHR 0xC5, CHR 0xC6, CHR 0xC7,
      CHR 0xC8, CHR 0xC9, CHR 0xCA, CHR 0xCB, CHR 0xCC, CHR 0xCD, CHR 0xCE, CHR 0xCF,
      CHR 0xD0, CHR 0xD1, CHR 0xD2, CHR 0xD3, CHR 0xD4, CHR 0xD5, CHR 0xD6,
      CHR 0xD8, CHR 0xD9, CHR 0xDA, CHR 0xDB, CHR 0xDC, CHR 0xDD, CHR 0xDE]"

definition lower_chars :: "char list" where
  "lower_chars = ''abcdefghijklmnopqrstuvwxyz'' @
     [CHR 0xE0, CHR 0xE1, CHR 0xE2, CHR 0xE3, CHR 0xE4, CHR 0xE5, CHR 0xE6, CHR 0xE7,
      CHR 0xE8, CHR 0xE9, CHR 0xEA, CHR 0xEB, CHR 0xEC, CHR 0xED, CHR 0xEE, CHR 0xEF,
      CHR 0xF0, CHR 0xF1, CHR 0xF2, CHR 0xF3, CHR 0xF4, CHR 0xF5, CHR 0xF6,
      CHR 0xF8, CHR 0xF9, CHR 0xFA, CHR 0xFB, CHR 0xFC, CHR 0xFD, CHR 0xFE]"

definition lower_char :: "char \<Rightarrow> char" where
  "lower_char c = (case map_of (zip upper_chars lower_chars) c of Some l \<Rightarrow> l | None \<Rightarrow> c)"

definition lower :: "string \<Rightarrow> string" where
  \<comment> \<open>\<^verbatim>\<open>str.lower()\<close>\<close>
  "lower s = map lower_char s"

fun split_from :: "string \<Rightarrow> string \<Rightarrow> string list" where
  "split_from cur [] = (if cur = [] then [] else [cur])"
| "split_from cur (c # cs) =
     (if isspace c then (if cur = [] then split_from [] cs else cur # split_from [] cs)
      else split_from (cur @ [c]) cs)"

definition split :: "string \<Rightarrow> string list" where
  \<comment> \<open>\<^verbatim>\<open>str.split()\<close> without argument: the maximal runs of non-whitespace\<close>
  "split s = split_from [] s"

definition strip :: "string \<Rightarrow> string" where
  \<comment> \<open>\<^verbatim>\<open>str.strip()\<close>\<close>
  "strip s = rev (dropWhile isspace (rev (dropWhile isspace s)))"

definition digit_char :: "nat \<Rightarrow> char" where
  "digit_char n = ''0123456789'' ! (n mod 10)"

fun show_nat :: "nat \<Rightarrow> string" where
  "show_nat n = (if n < 10 then [digit_char n] else show_nat (n div 10) @ [digit_char (n mod 10)])"

declare show_nat.simps [simp del]

section \<open>The API client of the web UI\<close>

text \<open>
  \<^verbatim>\<open>fetch\<close> either rejects (a network failure) or resolves to a response with its
  \<^verbatim>\<open>ok\<close> flag, status and status text; reading the body with \<^verbatim>\<open>response.json()\<close>
  either rejects or yields the data. A thrown JavaScript error is the left summand.
  \<^verbatim>\<open>console.error\<close> is not modelled.
\<close>

datatype js_error = Error string

record 'd response =
  ok :: bool
  status :: nat
  statusText :: string
  json :: "js_error + 'd"

datatype 'd fetch_result = Rejected js_error | Resolved "'d response"

record PDFRecommendation =
  doc_id :: string
  title :: string
  description :: string
  platform :: string
  public_url :: string
  filename :: string
  pages :: nat
  file_size_kb :: nat
  relevance :: "string option"
  priority :: "string option"
  tags :: "string list option"

record ChatResponse =
  reply :: string
  source :: string
  response_article_link :: "string option"
  confidence :: real
  recommended_pdfs :: "PDFRecommendation list option"
  retrieval_time_ms :: "real option"
  llm_time_ms :: "real option"
  total_time_ms :: "real option"

definition sendChatMessage :: "ChatResponse fetch_result \<Rightarrow> js_error + ChatResponse" where
  \<comment> \<open>the argument is what \<^verbatim>\<open>fetch(`${API_BASE_URL}/chat`, ...)\<close> settles to\<close>
  "sendChatMessage fetched =
     (case fetched of
        Rejected e \<Rightarrow> Inl e
      | Resolved response \<Rightarrow>
          if \<not> ok response
          then Inl (Error (''API Error: '' @ show_nat (status response) @ '' '' @ statusText response))
          else (case json response of Inl e \<Rightarrow> Inl e | Inr data \<Rightarrow> Inr data))"

definition checkApiHealth :: "'d fetch_result \<Rightarrow> bool" where
  \<comment> \<open>the argument is what \<^verbatim>\<open>fetch(`${API_BASE_URL}/sessions/stats`)\<close> settles to\<close>
  "checkApiHealth fetched =
     (case fetched of Rejected e \<Rightarrow> False | Resolved response \<Rightarrow> ok response)"

section \<open>The chat page: \<^verbatim>\<open>handleSendMessage\<close>\<close>

datatype message_type = user | assistant | system

record Message =
  msg_id :: string
  msg_type :: message_type
  content :: string
  timestamp :: nat
  msg_confidence :: "real option"
  msg_source :: "string option"
  articleLink :: "string option"

datatype pdf_relevance = best | related | relevant

record PDFView =
  pdf_id :: string
  pdf_title :: string
  pdf_description :: string
  pdf_platform :: string
  pdf_relevance :: pdf_relevance
  lastUpdated :: string
  pageCount :: nat
  pdfUrl :: string

datatype api_status = Connected | Disconnected | Checking

record app_state =
  messages :: "Message list"
  pdfRecommendations :: "PDFView list"
  isLoading :: bool
  apiStatus :: api_status

definition formatPDF :: "(string \<Rightarrow> string) \<Rightarrow> (string \<Rightarrow> string) \<Rightarrow> PDFRecommendation \<Rightarrow> PDFView" where
  \<comment> \<open>the string methods \<^verbatim>\<open>toLowerCase\<close> and \<^verbatim>\<open>toUpperCase\<close> of the language are
      arguments; \<^verbatim>\<open>charAt(0)\<close> is the first character or the empty string\<close>
  "formatPDF toLowerCase toUpperCase pdf =
     (let normalizedRelevance =
            (case relevance pdf of None \<Rightarrow> ''relevant''
             | Some r \<Rightarrow> if toLowerCase r = [] then ''relevant'' else toLowerCase r)
      in \<lparr> pdf_id = doc_id pdf,
           pdf_title = title pdf,
           pdf_description = description pdf,
           pdf_platform = toUpperCase (take 1 (platform pdf)) @ drop 1 (platform pdf),
           pdf_relevance =
             (if normalizedRelevance = ''best match'' then best
              else if normalizedRelevance = ''best'' then best
              else if normalizedRelevance = ''related'' then related
              else relevant),
           lastUpdated = ''Recently'',
           pageCount = pages pdf,
           pdfUrl = public_url pdf \<rparr>)"

definition connection_error_text :: string where
  \<comment> \<open>the warning sign and its variation selector are written as their UTF-8 bytes\<close>
  "connection_error_text =
     [CHR 0xE2, CHR 0x9A, CHR 0xA0, CHR 0xEF, CHR 0xB8, CHR 0x8F] @
     '' Sorry, I'm having trouble connecting to the server. Please try again.''"

definition handleSendMessage ::
  "(string \<Rightarrow> string) \<Rightarrow> (string \<Rightarrow> string) \<Rightarrow> nat \<Rightarrow> nat \<Rightarrow> ChatResponse fetch_result \<Rightarrow> string
     \<Rightarrow> app_state \<Rightarrow> app_state" where
  \<comment> \<open>\<open>t0\<close> and \<open>t1\<close> are the clock readings when the user message and the answer are made\<close>
  "handleSendMessage toLowerCase toUpperCase t0 t1 fetched text st =
     (let userMessage = \<lparr> msg_id = show_nat t0, msg_type = user, content = text, timestamp = t0,
                            msg_confidence = None, msg_source = None, articleLink = None \<rparr>;
          st1 = st\<lparr> messages := messages st @ [userMessage], isLoading := True \<rparr>;
          st2 =
            (case sendChatMessage fetched of
               Inr response \<Rightarrow>
                 (let assistantMessage =
                        \<lparr> msg_id = show_nat (t1 + 1), msg_type = assistant,
                          content = reply response, timestamp = t1,
                          msg_confidence = Some (confidence response),
                          msg_source = Some (source response),
                          articleLink = response_article_link response \<rparr>
                  in st1\<lparr> messages := messages st1 @ [assistantMessage],
                          pdfRecommendations :=
                            (case recommended_pdfs response of
                               None \<Rightarrow> []
                             | Some pdfs \<Rightarrow> map (formatPDF toLowerCase toUpperCase) pdfs),
                          apiStatus := Connected \<rparr>)
             | Inl e \<Rightarrow>
                 (let errorMessage =
                        \<lparr> msg_id = show_nat (t1 + 1), msg_type = system,
                          content = connection_error_text, timestamp = t1,
                          msg_confidence = None, msg_source = None, articleLink = None \<rparr>
                  in st1\<lparr> messages := messages st1 @ [errorMessage],
                          apiStatus := Disconnected \<rparr>))
      in st2\<lparr> isLoading := False \<rparr>)"

section \<open>The backend endpoint\<close>

text \<open>
  A raised Python exception is a value, the left summand of a result. The call of the
  language model, \<^verbatim>\<open>llm.chat\<close>, is an argument of the endpoint: it returns the reply
  or raises.
\<close>

datatype py_exception =
    RequestException string
  | RuntimeError string
  | IndexError
  | AssertionError

text \<open>
  The endpoint answers with the reply, or with the status 500 and a detail that is the
  text of the exception (\<^verbatim>\<open>str(e)\<close>), kept here as the exception itself.
\<close>

datatype http_body = ReplyBody string | DetailBody py_exception

record http_response =
  status_code :: nat
  body :: http_body

definition chat :: "(string \<Rightarrow> py_exception + string) \<Rightarrow> string \<Rightarrow> http_response" where
  \<comment> \<open>\<^verbatim>\<open>POST /chat\<close>: the first argument is \<^verbatim>\<open>llm.chat\<close>, the second \<^verbatim>\<open>payload.message\<close>\<close>
  "chat llm_chat message =
     (case llm_chat message of
        Inr reply_text \<Rightarrow> \<lparr> status_code = 200, body = ReplyBody reply_text \<rparr>
      | Inl e \<Rightarrow> \<lparr> status_code = 500, body = DetailBody e \<rparr>)"

definition fetch_chat ::
  "(nat \<Rightarrow> string) \<Rightarrow> (http_body \<Rightarrow> js_error + ChatResponse) \<Rightarrow> http_response
     \<Rightarrow> ChatResponse fetch_result" where
  \<comment> \<open>how the browser presents the endpoint's answer when the request reaches the server:
      \<^verbatim>\<open>ok\<close> is a status from 200 to 299; the reason phrase of a status and the reading
      of a body as JSON are parameters\<close>
  "fetch_chat reason_phrase parse r =
     Resolved \<lparr> ok = (200 \<le> status_code r \<and> status_code r \<le> 299),
                status = status_code r,
                statusText = reason_phrase (status_code r),
                json = parse (body r) \<rparr>"

section \<open>Session-scoped memory\<close>

text \<open>
  A history entry is the dictionary \<^verbatim>\<open>{"role": ..., "content": ...}\<close>. A session is
  the dictionary stored under its id. Times are \<^verbatim>\<open>datetime\<close> values counted in
  microseconds, the resolution of \<^verbatim>\<open>datetime\<close> and \<^verbatim>\<open>timedelta\<close>;
  each reading of \<^verbatim>\<open>datetime.now()\<close> is an argument.
\<close>

record turn =
  role :: string
  turn_content :: string

record session =
  history :: "turn list"
  awaiting_course_code :: bool
  stored_intent :: "string option"
  stored_platform :: "string option"
  last_activity :: int

definition SESSION_TIMEOUT :: int where
  \<comment> \<open>\<^verbatim>\<open>timedelta(hours=1)\<close>\<close>
  "SESSION_TIMEOUT = 3600 * 1000000"

definition get_or_create_session ::
  "(string \<rightharpoonup> session) \<Rightarrow> string \<Rightarrow> int \<Rightarrow> int \<Rightarrow> (string \<rightharpoonup> session) \<times> session" where
  \<comment> \<open>\<open>created\<close> is the clock reading taken when a new entry is made, \<open>now\<close> the one
      taken for the refresh; the result is the new store and the returned session\<close>
  "get_or_create_session sessions session_id created now =
     (let data = (case sessions session_id of
                    None \<Rightarrow> \<lparr> history = [], awaiting_course_code = False, stored_intent = None,
                              stored_platform = None, last_activity = created \<rparr>
                  | Some stored \<Rightarrow> stored)
      in (sessions(session_id \<mapsto> data\<lparr> last_activity := now \<rparr>),
          data\<lparr> last_activity := now \<rparr>))"

definition cleanup_expired_sessions :: "(string \<rightharpoonup> session) \<Rightarrow> int \<Rightarrow> (string \<rightharpoonup> session)" where
  "cleanup_expired_sessions sessions now =
     (\<lambda>sid. case sessions sid of
              None \<Rightarrow> None
            | Some data \<Rightarrow> if now - last_activity data > SESSION_TIMEOUT then None else Some data)"

definition session_id_of :: "string option \<Rightarrow> string" where
  \<comment> \<open>\<^verbatim>\<open>payload.session_id or "default"\<close>\<close>
  "session_id_of given = (case given of None \<Rightarrow> ''default'' | Some s \<Rightarrow> if s = [] then ''default'' else s)"

section \<open>Contextual query for follow-ups\<close>

fun last_assistant_response :: "turn list \<Rightarrow> string option" where
  \<comment> \<open>the loop over \<^verbatim>\<open>reversed(history)\<close>; the argument is the reversed history\<close>
  "last_assistant_response [] = None"
| "last_assistant_response (msg # rest) =
     (if role msg = ''assistant'' then Some (turn_content msg) else last_assistant_response rest)"

definition pronouns :: "string list" where
  "pronouns = [''it'', ''that'', ''this'', ''there'', ''where'']"

definition build_contextual_query :: "string \<Rightarrow> turn list \<Rightarrow> string" where
  "build_contextual_query message hist =
     (if hist = [] \<or> length hist < 2 then message
      else case last_assistant_response (rev hist) of
             None \<Rightarrow> message
           | Some last_response \<Rightarrow>
               if last_response = [] then message
               else if list_ex (\<lambda>pronoun. pronoun \<in> set (split (lower message))) pronouns
               then take 200 last_response @ '' '' @ message
               else message)"

text \<open>
  The call site, before retrieval: the query is built from the message and the session's
  history and handed to the retriever; the session is passed on as it is.
\<close>

definition retrieve_with_context :: "(string \<Rightarrow> 'r) \<Rightarrow> session \<Rightarrow> string \<Rightarrow> session \<times> 'r" where
  "retrieve_with_context retrieve_query s message =
     (s, retrieve_query (build_contextual_query message (history s)))"

section \<open>State handling of the chat endpoint\<close>

text \<open>
  The state handling reads and clears the pending clarification on the session; what it
  hands on is the triple of the local variables \<^verbatim>\<open>course_code\<close>, \<^verbatim>\<open>intent\<close>
  and \<^verbatim>\<open>platform\<close>. The helper \<^verbatim>\<open>extract_course_code\<close> and the branch that
  detects the intent of a fresh message are arguments.
\<close>

type_synonym slots = "string option \<times> string option \<times> string option"

definition state_handling ::
  "(string \<Rightarrow> string option) \<Rightarrow> (session \<Rightarrow> string \<Rightarrow> session \<times> slots) \<Rightarrow> session \<Rightarrow> string
     \<Rightarrow> session \<times> slots" where
  "state_handling extract detect_intent s message =
     (if awaiting_course_code s
      then (s\<lparr> awaiting_course_code := False, stored_intent := None, stored_platform := None \<rparr>,
            (extract message, stored_intent s, stored_platform s))
      else detect_intent s message)"

definition handle_state_then_append ::
  "(string \<Rightarrow> string option) \<Rightarrow> (session \<Rightarrow> string \<Rightarrow> session \<times> slots) \<Rightarrow> session \<Rightarrow> string
     \<Rightarrow> session \<times> slots" where
  \<comment> \<open>the state handling, then the append of the user message to the history\<close>
  "handle_state_then_append extract detect_intent s message =
     (case state_handling extract detect_intent s message of
        (s1, found) \<Rightarrow>
          (s1\<lparr> history := history s1 @ [\<lparr> role = ''user'', turn_content = message \<rparr>] \<rparr>, found))"

text \<open>
  Modelled from the spec: \<^verbatim>\<open>extract_course_code\<close> is called by the state handling
  but defined nowhere in the sources. The spec asks for a strict course-code pattern
  that finds \<^verbatim>\<open>BIO101\<close> in a sentence: here a word of capital letters directly
  followed by digits, the first such word of the message.
\<close>

definition capital :: "char \<Rightarrow> bool" where
  "capital c = (c \<in> set ''ABCDEFGHIJKLMNOPQRSTUVWXYZ'')"

definition digit :: "char \<Rightarrow> bool" where
  "digit c = (c \<in> set ''0123456789'')"

definition small :: "char \<Rightarrow> bool" where
  "small c = (c \<in> set ''abcdefghijklmnopqrstuvwxyz'')"

fun words_from :: "string \<Rightarrow> string \<Rightarrow> string list" where
  "words_from cur [] = (if cur = [] then [] else [cur])"
| "words_from cur (c # cs) =
     (if capital c \<or> small c \<or> digit c then words_from (cur @ [c]) cs
      else if cur = [] then words_from [] cs else cur # words_from [] cs)"

definition course_code_word :: "string \<Rightarrow> bool" where
  "course_code_word w =
     (takeWhile capital w \<noteq> [] \<and> dropWhile capital w \<noteq> [] \<and> list_all digit (dropWhile capital w))"

definition extract_course_code :: "string \<Rightarrow> string option" where
  "extract_course_code message = find course_code_word (words_from [] message)"

text \<open>
  Modelled from the spec: what the endpoint does after the state handling is in none of
  the snippets. By the spec's transition table a turn that resolves a pending
  clarification merges the extracted slot with the stashed intent and platform and
  proceeds with retrieval. The retrieval on the merged slots is an argument, and so is the
  rest of a turn that found no clarification pending. The snippet makes no case
  distinction on the extracted value, and none is made here.
\<close>

definition conversation_turn ::
  "(session \<Rightarrow> string \<Rightarrow> session \<times> slots) \<Rightarrow> (session \<Rightarrow> slots \<Rightarrow> string \<Rightarrow> session \<times> 'o) \<Rightarrow> (slots \<Rightarrow> 'o)
     \<Rightarrow> session \<Rightarrow> string \<Rightarrow> session \<times> 'o" where
  "conversation_turn detect_intent idle_rest retrieve_for s message =
     (case state_handling extract_course_code detect_intent s message of
        (s1, found) \<Rightarrow>
          if awaiting_course_code s then (s1, retrieve_for found) else idle_rest s1 found message)"

section \<open>The article-link pattern\<close>

text \<open>
  \<^verbatim>\<open>re.search(r'Article link:\s*"?([^"\n]+)"?', best_chunk)\<close>: the start positions are
  tried from the left; at a position the literal must be read, then the greedy
  \<^verbatim>\<open>\s*\<close> takes all the whitespace and gives it back one character at a time while
  the rest fails, the optional quote is taken first and given back if the group then
  fails, and the group takes every character up to a quote, a newline or the end and
  needs at least one. The closing optional quote never fails.
\<close>

definition link_marker :: string where
  "link_marker = ''Article link:''"

definition link_char :: "char \<Rightarrow> bool" where
  \<comment> \<open>the class \<^verbatim>\<open>[^"\n]\<close>\<close>
  "link_char c = (c \<noteq> CHR 0x22 \<and> c \<noteq> CHR 0x0A)"

definition group_from :: "string \<Rightarrow> string option" where
  "group_from t = (if takeWhile link_char t = [] then None else Some (takeWhile link_char t))"

definition quoted_group :: "string \<Rightarrow> string option" where
  "quoted_group s =
     (case s of
        [] \<Rightarrow> None
      | c # t \<Rightarrow>
          if c = CHR 0x22
          then (case group_from t of Some g \<Rightarrow> Some g | None \<Rightarrow> group_from s)
          else group_from s)"

fun after_spaces :: "nat \<Rightarrow> string \<Rightarrow> string option" where
  "after_spaces 0 s = quoted_group s"
| "after_spaces (Suc n) s =
     (case quoted_group (drop (Suc n) s) of Some g \<Rightarrow> Some g | None \<Rightarrow> after_spaces n s)"

definition match_here :: "string \<Rightarrow> string option" where
  "match_here s =
     (if prefix link_marker s
      then after_spaces (length (takeWhile isspace (drop (length link_marker) s)))
                        (drop (length link_marker) s)
      else None)"

fun re_search :: "string \<Rightarrow> string option" where
  "re_search [] = None"
| "re_search (c # cs) =
     (case match_here (c # cs) of Some g \<Rightarrow> Some g | None \<Rightarrow> re_search cs)"

definition extract_article_link :: "string \<Rightarrow> string option" where
  \<comment> \<open>\<^verbatim>\<open>match.group(1).strip() if match else None\<close>\<close>
  "extract_article_link best_chunk = map_option strip (re_search best_chunk)"

fun contains :: "string \<Rightarrow> string \<Rightarrow> bool" where
  \<comment> \<open>\<^verbatim>\<open>sub in s\<close>\<close>
  "contains sub [] = (sub = [])"
| "contains sub (c # cs) = (prefix sub (c # cs) \<or> contains sub cs)"

section \<open>Vector indices\<close>

text \<open>
  An embedding is a list of numbers; the numbers are reals, so rounding is not modelled.
  A flat index holds its vectors in the order they were added. A search with a query
  vector and \<open>k\<close> gives the row of scores and the row of labels of the \<open>k\<close> best
  entries, best first: greatest inner product for \<^verbatim>\<open>IndexFlatIP\<close>, least squared
  distance for \<^verbatim>\<open>IndexFlatL2\<close>, the lower label first among equals. Missing entries
  have the label \<open>-1\<close>, and the wrapper asserts \<open>k > 0\<close>. All vectors come from one
  model and have its dimension.
\<close>

type_synonym vec = "real list"

definition inner_product :: "vec \<Rightarrow> vec \<Rightarrow> real" where
  "inner_product q v = (\<Sum>(a, b) \<leftarrow> zip q v. a * b)"

definition squared_distance :: "vec \<Rightarrow> vec \<Rightarrow> real" where
  "squared_distance q v = (\<Sum>(a, b) \<leftarrow> zip q v. (a - b) * (a - b))"

datatype faiss_index = IndexFlatIP "vec list" | IndexFlatL2 "vec list"

fun stored :: "faiss_index \<Rightarrow> vec list" where
  "stored (IndexFlatIP xb) = xb"
| "stored (IndexFlatL2 xb) = xb"

definition FLT_MAX :: real where
  "FLT_MAX = (2 ^ 24 - 1) * 2 ^ 104"

fun ranked :: "faiss_index \<Rightarrow> vec \<Rightarrow> (real \<times> int) list" where
  "ranked (IndexFlatIP xb) q =
     sort_key (\<lambda>hit. - fst hit) (zip (map (inner_product q) xb) (map int [0..<length xb]))"
| "ranked (IndexFlatL2 xb) q =
     sort_key fst (zip (map (squared_distance q) xb) (map int [0..<length xb]))"

fun missing_entry :: "faiss_index \<Rightarrow> real \<times> int" where
  "missing_entry (IndexFlatIP xb) = (- FLT_MAX, - 1)"
| "missing_entry (IndexFlatL2 xb) = (FLT_MAX, - 1)"

definition search :: "faiss_index \<Rightarrow> vec \<Rightarrow> int \<Rightarrow> py_exception + (real list \<times> int list)" where
  "search index q k =
     (if k \<le> 0 then Inl AssertionError
      else (let hits = take (nat k) (ranked index q);
                row = hits @ replicate (nat k - length hits) (missing_entry index)
            in Inr (map fst row, map snd row)))"

definition getitem :: "'a list \<Rightarrow> int \<Rightarrow> py_exception + 'a" where
  \<comment> \<open>\<^verbatim>\<open>xs[i]\<close>: a negative index counts from the end\<close>
  "getitem xs i =
     (if 0 \<le> i \<and> i < int (length xs) then Inr (xs ! nat i)
      else if i < 0 \<and> - int (length xs) \<le> i then Inr (xs ! nat (int (length xs) + i))
      else Inl IndexError)"

definition show_int :: "int \<Rightarrow> string" where
  "show_int i = (if i < 0 then ''-'' @ show_nat (nat (- i)) else show_nat (nat i))"

section \<open>Ingestion of the instruction files\<close>

text \<open>
  What the program does to the model and to the index files is recorded as a list of
  events: one \<open>Encoded\<close> per call of \<^verbatim>\<open>model.encode\<close> with the texts and the
  normalisation flag, one \<open>Built\<close> per index that is created and filled, one
  \<open>Written\<close> or \<open>Read\<close> per index file, one \<open>Searched\<close> per call of
  \<^verbatim>\<open>index.search\<close>.
\<close>

datatype event =
    Encoded "string list" bool
  | Built faiss_index
  | Written string
  | Read string
  | Searched faiss_index int


definition INSTRUCTIONS_INDEX_PATH :: string where
  "INSTRUCTIONS_INDEX_PATH = ''data/instructions/faiss_index''"


section \<open>The retriever\<close>

record FAQRetriever =
  model :: "bool \<Rightarrow> string \<Rightarrow> vec"
  faq_index :: faiss_index
  instructions_index :: faiss_index
  instructions_index_cengage :: "faiss_index option"
  instructions_index_mcgraw :: "faiss_index option"
  faq_chunks :: "string list"
  instruction_chunks :: "string list"
  cengage_chunks :: "string list"
  mcgraw_chunks :: "string list"
  select_collection :: "string \<Rightarrow> string"

record chunk_lists =
  loaded_faq_chunks :: "string list"
  loaded_instruction_chunks :: "string list"
  loaded_cengage_chunks :: "string list"
  loaded_mcgraw_chunks :: "string list"

definition FAQRetriever_init ::
  "(bool \<Rightarrow> string \<Rightarrow> vec) \<Rightarrow> (string \<Rightarrow> string) \<Rightarrow> string \<Rightarrow> (string \<rightharpoonup> faiss_index) \<Rightarrow> chunk_lists
     \<Rightarrow> event list \<times> (py_exception + FAQRetriever)" where
  \<comment> \<open>the sentence model, the collection heuristic, the path of the FAQ index, the index
      files and the chunk lists that the elided part loads are arguments; reading a
      missing file raises, which the two platform reads catch\<close>
  "FAQRetriever_init encode select FAQ_INDEX_PATH disk chunks =
     (case disk FAQ_INDEX_PATH of
        None \<Rightarrow> ([Read FAQ_INDEX_PATH], Inl (RuntimeError ''could not open index file''))
      | Some faq \<Rightarrow>
          (case disk INSTRUCTIONS_INDEX_PATH of
             None \<Rightarrow> ([Read FAQ_INDEX_PATH, Read INSTRUCTIONS_INDEX_PATH],
                       Inl (RuntimeError ''could not open index file''))
           | Some instructions \<Rightarrow>
               ([Read FAQ_INDEX_PATH, Read INSTRUCTIONS_INDEX_PATH,
                 Read ''data/instructions/faiss_index_cengage'',
                 Read ''data/instructions/faiss_index_mcgraw''],
                Inr \<lparr> model = encode,
                      faq_index = faq,
                      instructions_index = instructions,
                      instructions_index_cengage = disk ''data/instructions/faiss_index_cengage'',
                      instructions_index_mcgraw = disk ''data/instructions/faiss_index_mcgraw'',
                      faq_chunks = loaded_faq_chunks chunks,
                      instruction_chunks = loaded_instruction_chunks chunks,
                      cengage_chunks = loaded_cengage_chunks chunks,
                      mcgraw_chunks = loaded_mcgraw_chunks chunks,
                      select_collection = select \<rparr>)))"

record RetrievalResult =
  result_context :: string
  score :: real
  source_id :: string
  article_link :: "string option"

definition best_match :: "string list \<Rightarrow> real list \<times> int list \<Rightarrow> py_exception + RetrievalResult" where
  \<comment> \<open>the FAQ branch, from \<^verbatim>\<open>best_index = indices[0][0]\<close> to the returned dictionary\<close>
  "best_match chunks found =
     (case snd found of
        [] \<Rightarrow> Inl IndexError
      | best_index # _ \<Rightarrow>
          (case fst found of
             [] \<Rightarrow> Inl IndexError
           | best_score # _ \<Rightarrow>
               (case getitem chunks best_index of
                  Inl e \<Rightarrow> Inl e
                | Inr best_chunk \<Rightarrow>
                    Inr \<lparr> result_context = best_chunk,
                          score = best_score,
                          source_id = ''FAQ_SOURCE_'' @ show_int best_index,
                          article_link = extract_article_link best_chunk \<rparr>)))"

definition embed_and_search ::
  "FAQRetriever \<Rightarrow> faiss_index \<Rightarrow> string \<Rightarrow> int
     \<Rightarrow> (real list \<times> int list \<Rightarrow> py_exception + RetrievalResult)
     \<Rightarrow> event list \<times> (py_exception + RetrievalResult)" where
  \<comment> \<open>the query is embedded once and the chosen index is searched; \<open>rest\<close> is what the
      branch does with the scores and labels found\<close>
  "embed_and_search R index query k rest =
     (let query_embedding = model R True query
      in ([Encoded [query] True, Searched index k],
          case search index query_embedding k of
            Inl e \<Rightarrow> Inl e
          | Inr found \<Rightarrow> rest found))"

definition select_index :: "FAQRetriever \<Rightarrow> string option \<Rightarrow> faiss_index \<times> string list" where
  \<comment> \<open>the platform-specific index when the platform is given and its index was loaded,
      the full instructions index otherwise\<close>
  "select_index R platform_given =
     (case (if platform_given = Some ''CENGAGE'' then instructions_index_cengage R else None) of
        Some index \<Rightarrow> (index, cengage_chunks R)
      | None \<Rightarrow>
          (case (if platform_given = Some ''MCGRAW_HILL'' then instructions_index_mcgraw R else None) of
             Some index \<Rightarrow> (index, mcgraw_chunks R)
           | None \<Rightarrow> (instructions_index R, instruction_chunks R)))"

text \<open>
  The source spells out how the result is made from the search in the FAQ branch only. In
  the instructions branch it chooses the index, embeds the query and searches, and elides
  the rest (\<^verbatim>\<open># Return result...\<close>). What the elided lines return or raise, from all
  that is in scope there (the retriever, the arguments, the chosen index and chunks, the
  scores and labels found), is the first argument of \<open>retrieve\<close>.
\<close>

type_synonym instructions_return =
  "FAQRetriever \<Rightarrow> string \<Rightarrow> int \<Rightarrow> string option \<Rightarrow> faiss_index \<Rightarrow> string list
     \<Rightarrow> real list \<times> int list \<Rightarrow> py_exception + RetrievalResult"

definition retrieve ::
  "instructions_return \<Rightarrow> FAQRetriever \<Rightarrow> string \<Rightarrow> int \<Rightarrow> string \<Rightarrow> string option
     \<Rightarrow> event list \<times> (py_exception + RetrievalResult)" where
  "retrieve return_result R query k collection platform_given =
     (let selected_collection = (if collection = ''auto'' then select_collection R query else collection)
      in if selected_collection = ''instructions''
         then (case select_index R platform_given of
                 (index, chunks) \<Rightarrow>
                   embed_and_search R index query k
                     (return_result R query k platform_given index chunks))
         else embed_and_search R (faq_index R) query k (best_match (faq_chunks R)))"

definition selected :: "FAQRetriever \<Rightarrow> string \<Rightarrow> string \<Rightarrow> string option \<Rightarrow> faiss_index \<times> string list" where
  \<comment> \<open>the index, and its chunk list, that \<open>retrieve\<close> searches for these arguments\<close>
  "selected R query collection platform_given =
     (if (if collection = ''auto'' then select_collection R query else collection) = ''instructions''
      then select_index R platform_given
      else (faq_index R, faq_chunks R))"

definition prebuilt_indices :: "FAQRetriever \<Rightarrow> faiss_index set" where
  \<comment> \<open>the indices the retriever holds since it was loaded\<close>
  "prebuilt_indices R =
     {faq_index R, instructions_index R} \<union> set_option (instructions_index_cengage R)
       \<union> set_option (instructions_index_mcgraw R)"


section \<open>A small retriever\<close>

text \<open>
  A sentence model with two-dimensional vectors, the index files of one FAQ chunk and
  two instruction chunks, one of them for Cengage, and the retriever loaded from them.
\<close>

definition example_model :: "bool \<Rightarrow> string \<Rightarrow> vec" where
  "example_model flag t = (if contains ''engage'' t then [3/5, 4/5] else [1, 0])"

definition example_disk :: "string \<rightharpoonup> faiss_index" where
  "example_disk =
     [''data/faqs/faiss_index'' \<mapsto> IndexFlatIP [[1, 0]],
      INSTRUCTIONS_INDEX_PATH \<mapsto> IndexFlatIP [[1, 0], [0, 1]],
      ''data/instructions/faiss_index_cengage'' \<mapsto> IndexFlatIP [[0, 1]]]"

definition example_retriever :: FAQRetriever where
  "example_retriever =
     \<lparr> model = example_model,
       faq_index = IndexFlatIP [[1, 0]],
       instructions_index = IndexFlatIP [[1, 0], [0, 1]],
       instructions_index_cengage = Some (IndexFlatIP [[0, 1]]),
       instructions_index_mcgraw = None,
       faq_chunks = [''Returns are accepted within 30 days.''],
       instruction_chunks = [''Open Connect from Blackboard.'', ''Open MindTap from Blackboard.''],
       cengage_chunks = [''Open MindTap from Blackboard.''],
       mcgraw_chunks = [],
       select_collection = (\<lambda>q. ''faqs'') \<rparr>"

text \<open>
  A stand-in for the return code that the instructions branch elides: it hands on the top
  score and nothing else. A retriever with two FAQ chunks, one with an L2 index for the
  FAQs, as loaded from its index file, and one whose stored FAQ vectors differ in length.
\<close>

definition stand_in_return :: instructions_return where
  "stand_in_return R query k platform_given index chunks found =
     (case fst found of
        [] \<Rightarrow> Inl IndexError
      | s # _ \<Rightarrow> Inr \<lparr> result_context = [], score = s, source_id = [], article_link = None \<rparr>)"





section \<open>The API client: failures\<close>

text \<open>
  C10. For every backend response with a non-ok status, and for every network failure,
  \<^verbatim>\<open>sendChatMessage\<close> throws an Error and returns no chat response;
  \<^verbatim>\<open>checkApiHealth\<close> never throws (its result is a boolean) and is true exactly when
  the stats request resolves with an ok status.
\<close>

theorem api_client_failures:
  "(\<forall>e. sendChatMessage (Rejected e) = Inl e) \<and>
   (\<forall>r. \<not> ok r \<longrightarrow>
      sendChatMessage (Resolved r) =
        Inl (Error (''API Error: '' @ show_nat (status r) @ '' '' @ statusText r))) \<and>
   (\<forall>f d. sendChatMessage f = Inr d \<longrightarrow> (\<exists>r. f = Resolved r \<and> ok r \<and> json r = Inr d)) \<and>
   (\<forall>f :: 'd fetch_result. checkApiHealth f = (\<exists>r. f = Resolved r \<and> ok r))"
  by (auto simp: sendChatMessage_def checkApiHealth_def
           split: fetch_result.splits sum.splits if_splits)

theorem api_client_failures_witness:
  "sendChatMessage
     (Resolved \<lparr> ok = False, status = 500, statusText = ''Internal Server Error'',
                 json = Inl (Error ''no body'') \<rparr>)
     = Inl (Error ''API Error: 500 Internal Server Error'') \<and>
   sendChatMessage (Rejected (Error ''Failed to fetch'')) = Inl (Error ''Failed to fetch'') \<and>
   \<not> checkApiHealth (Rejected (Error ''Failed to fetch'') :: unit fetch_result) \<and>
   checkApiHealth (Resolved \<lparr> ok = True, status = 200, statusText = ''OK'', json = Inr () \<rparr>)"
proof -
  have n: "show_nat 500 = ''500''"
    by (simp add: show_nat.simps digit_char_def)
  have a: "\<not> ok \<lparr> ok = False, status = 500, statusText = ''Internal Server Error'',
                   json = (Inl (Error ''no body'') :: js_error + ChatResponse) \<rparr>"
    by simp
  from api_client_failures [where 'd = unit] a n show ?thesis
    by (simp add: checkApiHealth_def)
qed

section \<open>A failing text generation\<close>

text \<open>
  C8, as the claim states it, fails: when the generation call raises, the endpoint hands
  the failure to its caller as a raw server error, the status 500 with the exception's
  text as detail. Here the call of the model times out.
\<close>

theorem generation_failure_counterexample:
  "chat (\<lambda>m. Inl (RequestException ''Read timed out'')) ''What is your return policy?''
     = \<lparr> status_code = 500, body = DetailBody (RequestException ''Read timed out'') \<rparr>"
  by (simp add: chat_def)

text \<open>
  C8, amended. For every request during which the generation call fails, the endpoint
  produces no reply: it answers with the status 500 and the exception's text. The chat
  page turns that answer into a visible system message that apologises and asks to try
  again, after the user's own message, marks the API as disconnected and ends loading;
  the page itself does not fail.
\<close>

theorem generation_failure_surfaced:
  assumes "llm_chat message = Inl e"
  shows "chat llm_chat message = \<lparr> status_code = 500, body = DetailBody e \<rparr> \<and>
         sendChatMessage (fetch_chat reason_phrase parse (chat llm_chat message))
           = Inl (Error (''API Error: 500 '' @ reason_phrase 500)) \<and>
         handleSendMessage toLowerCase toUpperCase sent answered (fetch_chat reason_phrase parse (chat llm_chat message)) message st
           = st\<lparr> messages := messages st @
                     [\<lparr> msg_id = show_nat sent, msg_type = user, content = message, timestamp = sent,
                        msg_confidence = None, msg_source = None, articleLink = None \<rparr>,
                      \<lparr> msg_id = show_nat (answered + 1), msg_type = system,
                        content = connection_error_text, timestamp = answered,
                        msg_confidence = None, msg_source = None, articleLink = None \<rparr>],
                   isLoading := False, apiStatus := Disconnected \<rparr>"
proof -
  have c: "chat llm_chat message = \<lparr> status_code = 500, body = DetailBody e \<rparr>"
    using assms by (simp add: chat_def)
  have n: "show_nat 500 = ''500''"
    by (simp add: show_nat.simps digit_char_def)
  have s: "sendChatMessage (fetch_chat reason_phrase parse (chat llm_chat message))
             = Inl (Error (''API Error: 500 '' @ reason_phrase 500))"
    by (simp add: c sendChatMessage_def fetch_chat_def n)
  have h: "handleSendMessage toLowerCase toUpperCase sent answered (fetch_chat reason_phrase parse (chat llm_chat message)) message st
           = st\<lparr> messages := messages st @
                     [\<lparr> msg_id = show_nat sent, msg_type = user, content = message, timestamp = sent,
                        msg_confidence = None, msg_source = None, articleLink = None \<rparr>,
                      \<lparr> msg_id = show_nat (answered + 1), msg_type = system,
                        content = connection_error_text, timestamp = answered,
                        msg_confidence = None, msg_source = None, articleLink = None \<rparr>],
                   isLoading := False, apiStatus := Disconnected \<rparr>"
    by (simp add: handleSendMessage_def s Let_def)
  from c s h show ?thesis by simp
qed

theorem generation_failure_surfaced_witness:
  "chat (\<lambda>m. Inl (RequestException ''Read timed out'')) ''Hello''
     = \<lparr> status_code = 500, body = DetailBody (RequestException ''Read timed out'') \<rparr> \<and>
   sendChatMessage
     (fetch_chat (\<lambda>n. ''Internal Server Error'') (\<lambda>b. Inl (Error ''unread''))
        (chat (\<lambda>m. Inl (RequestException ''Read timed out'')) ''Hello''))
     = Inl (Error ''API Error: 500 Internal Server Error'') \<and>
   map content
     (messages
       (handleSendMessage (\<lambda>t. t) (\<lambda>t. t) 1000 2000
          (fetch_chat (\<lambda>n. ''Internal Server Error'') (\<lambda>b. Inl (Error ''unread''))
             (chat (\<lambda>m. Inl (RequestException ''Read timed out'')) ''Hello''))
          ''Hello''
          \<lparr> messages = [], pdfRecommendations = [], isLoading = False, apiStatus = Connected \<rparr>))
     = [''Hello'', connection_error_text]"
proof -
  have a: "(\<lambda>m :: string. Inl (RequestException ''Read timed out'') :: py_exception + string) ''Hello''
             = Inl (RequestException ''Read timed out'')"
    by simp
  note w = generation_failure_surfaced
         [where llm_chat = "\<lambda>m. Inl (RequestException ''Read timed out'')"
            and message = "''Hello''" and sent = 1000 and answered = 2000
            and toLowerCase = "\<lambda>t. t" and toUpperCase = "\<lambda>t. t"
            and reason_phrase = "\<lambda>n. ''Internal Server Error''"
            and parse = "\<lambda>b. Inl (Error ''unread'')"
            and st = "\<lparr> messages = [], pdfRecommendations = [], isLoading = False,
                       apiStatus = Connected \<rparr>", OF a]
  show ?thesis
    apply (intro conjI)
      apply (rule w [THEN conjunct1])
     apply (simp only: w [THEN conjunct2, THEN conjunct1])
     apply simp
    apply (simp only: w [THEN conjunct2, THEN conjunct2])
    apply simp
    done
qed

section \<open>The session store\<close>

text \<open>
  C9. On first use of an id \<^verbatim>\<open>get_or_create_session\<close> stores and returns a session
  with an empty history, no pending clarification and no stored intent or platform; on
  every later use it returns the session stored under that id; each call sets
  \<^verbatim>\<open>last_activity\<close> to the current time. The sweep at time \<open>t\<close> removes exactly the
  sessions idle for longer than the timeout and leaves the others as they are.
\<close>

theorem session_store_lifecycle:
  "(sessions sid = None \<longrightarrow>
      get_or_create_session sessions sid created now =
        (sessions(sid \<mapsto> \<lparr> history = [], awaiting_course_code = False, stored_intent = None,
                            stored_platform = None, last_activity = now \<rparr>),
         \<lparr> history = [], awaiting_course_code = False, stored_intent = None,
           stored_platform = None, last_activity = now \<rparr>)) \<and>
   (\<forall>data. sessions sid = Some data \<longrightarrow>
      get_or_create_session sessions sid created now =
        (sessions(sid \<mapsto> data\<lparr> last_activity := now \<rparr>), data\<lparr> last_activity := now \<rparr>)) \<and>
   (\<forall>sessions1 s1. get_or_create_session sessions sid created now = (sessions1, s1) \<longrightarrow>
      get_or_create_session sessions1 sid created2 now2 =
        (sessions1(sid \<mapsto> s1\<lparr> last_activity := now2 \<rparr>), s1\<lparr> last_activity := now2 \<rparr>)) \<and>
   dom sessions - dom (cleanup_expired_sessions sessions t) =
     {k. \<exists>data. sessions k = Some data \<and> t - last_activity data > SESSION_TIMEOUT} \<and>
   (\<forall>k \<in> dom (cleanup_expired_sessions sessions t). cleanup_expired_sessions sessions t k = sessions k)"
proof (intro conjI)
  show "sessions sid = None \<longrightarrow>
      get_or_create_session sessions sid created now =
        (sessions(sid \<mapsto> \<lparr> history = [], awaiting_course_code = False, stored_intent = None,
                            stored_platform = None, last_activity = now \<rparr>),
         \<lparr> history = [], awaiting_course_code = False, stored_intent = None,
           stored_platform = None, last_activity = now \<rparr>)"
    by (simp add: get_or_create_session_def)
  show "\<forall>data. sessions sid = Some data \<longrightarrow>
      get_or_create_session sessions sid created now =
        (sessions(sid \<mapsto> data\<lparr> last_activity := now \<rparr>), data\<lparr> last_activity := now \<rparr>)"
    by (simp add: get_or_create_session_def)
  show "\<forall>sessions1 s1. get_or_create_session sessions sid created now = (sessions1, s1) \<longrightarrow>
      get_or_create_session sessions1 sid created2 now2 =
        (sessions1(sid \<mapsto> s1\<lparr> last_activity := now2 \<rparr>), s1\<lparr> last_activity := now2 \<rparr>)"
    by (auto simp: get_or_create_session_def Let_def split: option.splits)
  show "dom sessions - dom (cleanup_expired_sessions sessions t) =
     {k. \<exists>data. sessions k = Some data \<and> t - last_activity data > SESSION_TIMEOUT}"
    by (auto simp: cleanup_expired_sessions_def dom_def split: option.splits if_splits)
  show "\<forall>k \<in> dom (cleanup_expired_sessions sessions t). cleanup_expired_sessions sessions t k = sessions k"
    by (auto simp: cleanup_expired_sessions_def dom_def split: option.splits if_splits)
qed

theorem session_store_lifecycle_witness:
  "get_or_create_session Map.empty ''s1'' 5 7 =
     ([''s1'' \<mapsto> \<lparr> history = [], awaiting_course_code = False, stored_intent = None,
                     stored_platform = None, last_activity = 7 \<rparr>],
      \<lparr> history = [], awaiting_course_code = False, stored_intent = None,
        stored_platform = None, last_activity = 7 \<rparr>) \<and>
   get_or_create_session
     [''s1'' \<mapsto> \<lparr> history = [\<lparr> role = ''user'', turn_content = ''hi'' \<rparr>], awaiting_course_code = True,
                   stored_intent = Some ''IA_ACCESS_ISSUE'', stored_platform = None,
                   last_activity = 7 \<rparr>] ''s1'' 8 9 =
     ([''s1'' \<mapsto> \<lparr> history = [\<lparr> role = ''user'', turn_content = ''hi'' \<rparr>], awaiting_course_code = True,
                   stored_intent = Some ''IA_ACCESS_ISSUE'', stored_platform = None,
                   last_activity = 9 \<rparr>],
      \<lparr> history = [\<lparr> role = ''user'', turn_content = ''hi'' \<rparr>], awaiting_course_code = True,
        stored_intent = Some ''IA_ACCESS_ISSUE'', stored_platform = None, last_activity = 9 \<rparr>) \<and>
   dom [''old'' \<mapsto> \<lparr> history = [], awaiting_course_code = False, stored_intent = None,
                      stored_platform = None, last_activity = 0 \<rparr>,
        ''new'' \<mapsto> \<lparr> history = [], awaiting_course_code = False, stored_intent = None,
                      stored_platform = None, last_activity = 1 \<rparr>]
     - dom (cleanup_expired_sessions
             [''old'' \<mapsto> \<lparr> history = [], awaiting_course_code = False, stored_intent = None,
                      stored_platform = None, last_activity = 0 \<rparr>,
              ''new'' \<mapsto> \<lparr> history = [], awaiting_course_code = False, stored_intent = None,
                      stored_platform = None, last_activity = 1 \<rparr>] 3600000001)
     = {''old''}"
proof -
  note a = session_store_lifecycle [where sessions = Map.empty and sid = "''s1''" and created = 5 and now = 7,
      THEN conjunct1]
  note b = session_store_lifecycle
      [where sessions = "[''s1'' \<mapsto> \<lparr> history = [\<lparr> role = ''user'', turn_content = ''hi'' \<rparr>],
                   awaiting_course_code = True,
                   stored_intent = Some ''IA_ACCESS_ISSUE'', stored_platform = None,
                   last_activity = 7 \<rparr>]" and sid = "''s1''" and created = 8 and now = 9,
      THEN conjunct2, THEN conjunct1]
  note c = session_store_lifecycle
      [where sessions = "[''old'' \<mapsto> \<lparr> history = [], awaiting_course_code = False, stored_intent = None,
                      stored_platform = None, last_activity = 0 \<rparr>,
        ''new'' \<mapsto> \<lparr> history = [], awaiting_course_code = False, stored_intent = None,
                      stored_platform = None, last_activity = 1 \<rparr>]" and t = 3600000001,
      THEN conjunct2, THEN conjunct2, THEN conjunct2, THEN conjunct1]
  show ?thesis
    apply (intro conjI)
    using a apply simp
    using b apply simp
    apply (subst c)
    apply (auto simp: SESSION_TIMEOUT_def split: if_splits)
    done
qed

section \<open>Contextual queries\<close>

lemma last_assistant_response_split:
  assumes "role a = ''assistant''" and "\<forall>m \<in> set post. role m \<noteq> ''assistant''"
  shows "last_assistant_response (rev (pre @ a # post)) = Some (turn_content a)"
proof -
  have "last_assistant_response (rev post @ ys) = last_assistant_response ys" for ys
    using assms(2) by (induction post arbitrary: ys) auto
  then show ?thesis
    using assms(1) by simp
qed

lemma last_assistant_response_none:
  "(\<forall>m \<in> set hist. role m \<noteq> ''assistant'') \<Longrightarrow> last_assistant_response hist = None"
  by (induction hist) auto

text \<open>
  C7, as the claim states it, fails in four ways. The excerpt put before the message is
  the first 200 characters of the last assistant turn, which is no trailing part of a
  longer turn. A message of 303 characters that contains the word "it" is reformulated
  as well: the length of the message is never looked at. The call site does not look at
  the session state, so the reply "it is BIO101" of a session that awaits the course
  code is reformulated too. And with a history of one turn the short message
  "where can I find it" is handed on as it is.
\<close>

theorem contextual_query_counterexample:
  "build_contextual_query ''where can I find it''
     [\<lparr> role = ''user'', turn_content = ''How do I access McGraw Hill?'' \<rparr>,
      \<lparr> role = ''assistant'', turn_content = replicate 200 (CHR ''a'') @ ''b'' \<rparr>]
     = replicate 200 (CHR ''a'') @ '' where can I find it'' \<and>
   \<not> suffix (replicate 200 (CHR ''a'')) (replicate 200 (CHR ''a'') @ ''b'') \<and>
   length (''it '' @ replicate 300 (CHR ''x'')) = 303 \<and>
   build_contextual_query (''it '' @ replicate 300 (CHR ''x''))
     [\<lparr> role = ''user'', turn_content = ''How do I access McGraw Hill?'' \<rparr>,
      \<lparr> role = ''assistant'', turn_content = ''Open Connect'' \<rparr>]
     = ''Open Connect it '' @ replicate 300 (CHR ''x'') \<and>
   snd (retrieve_with_context (\<lambda>q. q)
          \<lparr> history = [\<lparr> role = ''user'', turn_content = ''I cannot access Cengage'' \<rparr>,
                       \<lparr> role = ''assistant'', turn_content = ''What is your course code?'' \<rparr>],
            awaiting_course_code = True, stored_intent = Some ''IA_ACCESS_ISSUE'',
            stored_platform = Some ''CENGAGE'', last_activity = 0 \<rparr>
          ''it is BIO101'')
     = ''What is your course code? it is BIO101'' \<and>
   build_contextual_query ''where can I find it''
     [\<lparr> role = ''assistant'', turn_content = ''Open McGraw Hill Connect from Blackboard.'' \<rparr>]
     = ''where can I find it''"
proof (intro conjI)
  have sp: "split (lower ''where can I find it'') = [''where'', ''can'', ''i'', ''find'', ''it'']"
    by code_simp
  show "build_contextual_query ''where can I find it''
     [\<lparr> role = ''user'', turn_content = ''How do I access McGraw Hill?'' \<rparr>,
      \<lparr> role = ''assistant'', turn_content = replicate 200 (CHR ''a'') @ ''b'' \<rparr>]
     = replicate 200 (CHR ''a'') @ '' where can I find it''"
    by (simp add: build_contextual_query_def sp pronouns_def)
  show "\<not> suffix (replicate 200 (CHR ''a'')) (replicate 200 (CHR ''a'') @ ''b'')"
  proof
    assume "suffix (replicate 200 (CHR ''a'')) (replicate 200 (CHR ''a'') @ ''b'')"
    then obtain zs where "replicate 200 (CHR ''a'') @ ''b'' = zs @ replicate 200 (CHR ''a'')"
      by (auto simp: suffix_def)
    then have "last (replicate 200 (CHR ''a'') @ ''b'') = last (zs @ replicate 200 (CHR ''a''))"
      by simp
    then show False by simp
  qed
  show "length (''it '' @ replicate 300 (CHR ''x'')) = 303" by simp
  have x: "\<not> isspace (CHR ''x'')" by (simp add: isspace_def whitespace_chars_def)
  have lx: "lower_char (CHR ''x'') = CHR ''x''" by code_simp
  have sf: "split_from cur (replicate n (CHR ''x'')) = [cur @ replicate n (CHR ''x'')]" if "cur \<noteq> [] \<or> n > 0" for cur n
    using that by (induction n arbitrary: cur) (auto simp: x replicate_app_Cons_same)
  have "split (lower (''it '' @ replicate 300 (CHR ''x''))) = [''it'', replicate 300 (CHR ''x'')]"
    apply (simp add: split_def lower_def lx)
    apply (simp add: isspace_def whitespace_chars_def lower_char_def upper_chars_def lower_chars_def)
    using sf [of "[]" 300] apply simp
    done
  then show "build_contextual_query (''it '' @ replicate 300 (CHR ''x''))
     [\<lparr> role = ''user'', turn_content = ''How do I access McGraw Hill?'' \<rparr>,
      \<lparr> role = ''assistant'', turn_content = ''Open Connect'' \<rparr>]
     = ''Open Connect it '' @ replicate 300 (CHR ''x'')"
    by (simp add: build_contextual_query_def pronouns_def)
  have sb: "split (lower ''it is BIO101'') = [''it'', ''is'', ''bio101'']"
    by code_simp
  show "snd (retrieve_with_context (\<lambda>q. q)
          \<lparr> history = [\<lparr> role = ''user'', turn_content = ''I cannot access Cengage'' \<rparr>,
                       \<lparr> role = ''assistant'', turn_content = ''What is your course code?'' \<rparr>],
            awaiting_course_code = True, stored_intent = Some ''IA_ACCESS_ISSUE'',
            stored_platform = Some ''CENGAGE'', last_activity = 0 \<rparr>
          ''it is BIO101'')
     = ''What is your course code? it is BIO101''"
    by (simp add: retrieve_with_context_def build_contextual_query_def sb pronouns_def)
  show "build_contextual_query ''where can I find it''
     [\<lparr> role = ''assistant'', turn_content = ''Open McGraw Hill Connect from Blackboard.'' \<rparr>]
     = ''where can I find it''"
    by (simp add: build_contextual_query_def)
qed

text \<open>
  C7, amended. Before retrieval, in every session state, also while a slot is awaited:
  when the history has at least two turns and the lower-cased message has one of the
  words "it", "that", "this", "there", "where" among its whitespace-separated words,
  whatever its length, the query handed to the retriever is the first 200 characters of
  the most recent assistant turn, a space and the message, or the message alone when that
  turn is empty; every other message is handed on unmodified; and the session, its
  history included, is left as it was.
\<close>

theorem contextual_query_leading_excerpt:
  "(\<forall>pre a post.
      hist = pre @ a # post \<and> role a = ''assistant'' \<and> (\<forall>m \<in> set post. role m \<noteq> ''assistant'') \<and>
      2 \<le> length hist \<and> (\<exists>p \<in> set pronouns. p \<in> set (split (lower message)))
      \<longrightarrow> build_contextual_query message hist =
            (if turn_content a = [] then message else take 200 (turn_content a) @ '' '' @ message)) \<and>
   (\<not> (\<exists>pre a post.
      hist = pre @ a # post \<and> role a = ''assistant'' \<and> (\<forall>m \<in> set post. role m \<noteq> ''assistant'') \<and>
      2 \<le> length hist \<and> (\<exists>p \<in> set pronouns. p \<in> set (split (lower message))))
      \<longrightarrow> build_contextual_query message hist = message) \<and>
   fst (retrieve_with_context retrieve_query s message) = s \<and>
   snd (retrieve_with_context retrieve_query s message)
     = retrieve_query (build_contextual_query message (history s))"
proof (intro conjI allI impI)
  fix pre a post
  assume h: "hist = pre @ a # post \<and> role a = ''assistant'' \<and> (\<forall>m \<in> set post. role m \<noteq> ''assistant'') \<and>
      2 \<le> length hist \<and> (\<exists>p \<in> set pronouns. p \<in> set (split (lower message)))"
  then have "last_assistant_response (rev hist) = Some (turn_content a)"
    using last_assistant_response_split by blast
  moreover have "list_ex (\<lambda>pronoun. pronoun \<in> set (split (lower message))) pronouns"
    using h by (auto simp: list_ex_iff)
  ultimately show "build_contextual_query message hist =
            (if turn_content a = [] then message else take 200 (turn_content a) @ '' '' @ message)"
    using h by (auto simp: build_contextual_query_def)
next
  assume n: "\<not> (\<exists>pre a post.
      hist = pre @ a # post \<and> role a = ''assistant'' \<and> (\<forall>m \<in> set post. role m \<noteq> ''assistant'') \<and>
      2 \<le> length hist \<and> (\<exists>p \<in> set pronouns. p \<in> set (split (lower message))))"
  show "build_contextual_query message hist = message"
  proof (cases "\<exists>m \<in> set hist. role m = ''assistant''")
    case False
    then have "last_assistant_response (rev hist) = None"
      by (intro last_assistant_response_none) simp
    then show ?thesis by (simp add: build_contextual_query_def)
  next
    case True
    then obtain pre a post where d: "hist = pre @ a # post" "role a = ''assistant''"
        "\<forall>m \<in> set post. role m \<noteq> ''assistant''"
      using split_list_last_prop [of hist "\<lambda>m. role m = ''assistant''"] by blast
    then have l: "last_assistant_response (rev hist) = Some (turn_content a)"
      using last_assistant_response_split by blast
    have "\<not> (2 \<le> length hist \<and> (\<exists>p \<in> set pronouns. p \<in> set (split (lower message))))"
      using n d by blast
    then have "length hist < 2 \<or>
        \<not> list_ex (\<lambda>pronoun. pronoun \<in> set (split (lower message))) pronouns"
      unfolding list_ex_iff by linarith
    then show ?thesis
      using l by (auto simp: build_contextual_query_def)
  qed
next
  show "fst (retrieve_with_context retrieve_query s message) = s"
    by (simp add: retrieve_with_context_def)
  show "snd (retrieve_with_context retrieve_query s message)
     = retrieve_query (build_contextual_query message (history s))"
    by (simp add: retrieve_with_context_def)
qed

theorem contextual_query_leading_excerpt_witness:
  "build_contextual_query ''where can I find it''
     [\<lparr> role = ''user'', turn_content = ''How do I access McGraw Hill?'' \<rparr>,
      \<lparr> role = ''assistant'', turn_content = ''Open McGraw Hill Connect from Blackboard.'' \<rparr>,
      \<lparr> role = ''user'', turn_content = ''thanks'' \<rparr>]
     = ''Open McGraw Hill Connect from Blackboard. where can I find it'' \<and>
   build_contextual_query ''What is the refund policy?''
     [\<lparr> role = ''user'', turn_content = ''How do I access McGraw Hill?'' \<rparr>,
      \<lparr> role = ''assistant'', turn_content = ''Open McGraw Hill Connect from Blackboard.'' \<rparr>]
     = ''What is the refund policy?''"
proof -
  have sp: "split (lower ''where can I find it'') = [''where'', ''can'', ''i'', ''find'', ''it'']"
    by code_simp
  have sp2: "split (lower ''What is the refund policy?'') = [''what'', ''is'', ''the'', ''refund'', ''policy?'']"
    by code_simp
  note w1 = contextual_query_leading_excerpt
      [where message = "''where can I find it''"
         and hist = "[\<lparr> role = ''user'', turn_content = ''How do I access McGraw Hill?'' \<rparr>,
      \<lparr> role = ''assistant'', turn_content = ''Open McGraw Hill Connect from Blackboard.'' \<rparr>,
      \<lparr> role = ''user'', turn_content = ''thanks'' \<rparr>]", THEN conjunct1, rule_format,
      of "[\<lparr> role = ''user'', turn_content = ''How do I access McGraw Hill?'' \<rparr>]"
         "\<lparr> role = ''assistant'', turn_content = ''Open McGraw Hill Connect from Blackboard.'' \<rparr>"
         "[\<lparr> role = ''user'', turn_content = ''thanks'' \<rparr>]"]
  note w2 = contextual_query_leading_excerpt
      [where message = "''What is the refund policy?''"
         and hist = "[\<lparr> role = ''user'', turn_content = ''How do I access McGraw Hill?'' \<rparr>,
      \<lparr> role = ''assistant'', turn_content = ''Open McGraw Hill Connect from Blackboard.'' \<rparr>]",
       THEN conjunct2, THEN conjunct1, rule_format]
  have a: "build_contextual_query ''where can I find it''
     [\<lparr> role = ''user'', turn_content = ''How do I access McGraw Hill?'' \<rparr>,
      \<lparr> role = ''assistant'', turn_content = ''Open McGraw Hill Connect from Blackboard.'' \<rparr>,
      \<lparr> role = ''user'', turn_content = ''thanks'' \<rparr>]
     = take 200 ''Open McGraw Hill Connect from Blackboard.'' @ '' '' @ ''where can I find it''"
    using w1 by (simp add: sp pronouns_def)
  have nb: "\<not> (\<exists>p \<in> set pronouns. p \<in> set (split (lower ''What is the refund policy?'')))"
    by (simp add: sp2 pronouns_def)
  have b: "build_contextual_query ''What is the refund policy?''
     [\<lparr> role = ''user'', turn_content = ''How do I access McGraw Hill?'' \<rparr>,
      \<lparr> role = ''assistant'', turn_content = ''Open McGraw Hill Connect from Blackboard.'' \<rparr>]
     = ''What is the refund policy?''"
    using w2 nb by blast
  from a b show ?thesis by simp
qed

section \<open>Resolving a pending clarification\<close>

lemma words_from_sublist: "w \<in> set (words_from cur s) \<Longrightarrow> sublist w (cur @ s)"
proof (induction s arbitrary: cur)
  case Nil
  then show ?case by (auto split: if_splits)
next
  case (Cons c cs)
  show ?case
  proof (cases "capital c \<or> small c \<or> digit c")
    case True
    then have "w \<in> set (words_from (cur @ [c]) cs)" using Cons.prems by simp
    then have "sublist w ((cur @ [c]) @ cs)" by (rule Cons.IH)
    then show ?thesis by simp
  next
    case False
    then have "w = cur \<or> w \<in> set (words_from [] cs)"
      using Cons.prems by (auto split: if_splits)
    then show ?thesis
    proof
      assume "w = cur"
      then show ?thesis by simp
    next
      assume "w \<in> set (words_from [] cs)"
      then have "sublist w ([] @ cs)" by (rule Cons.IH)
      then obtain ps ss where "cs = ps @ w @ ss"
        by (auto simp: sublist_def)
      then have "cur @ c # cs = (cur @ c # ps) @ w @ ss"
        by simp
      then show ?thesis
        unfolding sublist_def by blast
    qed
  qed
qed

lemma course_code_word_chars:
  assumes "course_code_word w" and "c \<in> set w"
  shows "capital c \<or> digit c"
proof -
  have "takeWhile capital w @ dropWhile capital w = w"
    by (rule takeWhile_dropWhile_id)
  then have "set w = set (takeWhile capital w) \<union> set (dropWhile capital w)"
    using set_append [of "takeWhile capital w" "dropWhile capital w"] by simp
  then have "c \<in> set (takeWhile capital w) \<or> c \<in> set (dropWhile capital w)"
    using assms(2) by blast
  then show ?thesis
  proof
    assume "c \<in> set (takeWhile capital w)"
    then show ?thesis by (blast dest: set_takeWhileD)
  next
    assume d: "c \<in> set (dropWhile capital w)"
    have "list_all digit (dropWhile capital w)"
      using assms(1) unfolding course_code_word_def by blast
    then show ?thesis using d unfolding list_all_iff by blast
  qed
qed

text \<open>
  C1. For a session that awaits the course code and a message in which the strict pattern
  finds a code, the slot value is that code: a part of the message that is a word of
  capital letters followed by digits, never the message itself unless the message is
  such a word. The code is handed on with the stashed intent and platform, the pending
  flag and the stash are cleared, so that the session is idle again, and the turn
  proceeds with the retrieval on the merged slots. In the witness the sentence
  "it's BIO101 for biology" yields exactly "BIO101".
\<close>

theorem slot_value_is_extracted:
  assumes "awaiting_course_code s" and "extract_course_code message = Some course_code"
  shows "state_handling extract_course_code detect_intent s message =
           (s\<lparr> awaiting_course_code := False, stored_intent := None, stored_platform := None \<rparr>,
            (Some course_code, stored_intent s, stored_platform s)) \<and>
         conversation_turn detect_intent idle_rest retrieve_for s message =
           (s\<lparr> awaiting_course_code := False, stored_intent := None, stored_platform := None \<rparr>,
            retrieve_for (Some course_code, stored_intent s, stored_platform s)) \<and>
         sublist course_code message \<and> course_code_word course_code \<and>
         (\<forall>c \<in> set course_code. capital c \<or> digit c) \<and>
         (\<not> course_code_word message \<longrightarrow> course_code \<noteq> message)"
proof -
  have w: "course_code_word course_code" "course_code \<in> set (words_from [] message)"
    using assms(2) by (auto simp: extract_course_code_def find_Some_iff)
  have sub: "sublist course_code message"
    using words_from_sublist [OF w(2)] by simp
  have chars: "\<forall>c \<in> set course_code. capital c \<or> digit c"
    using course_code_word_chars [OF w(1)] by blast
  have st: "state_handling extract_course_code detect_intent s message =
           (s\<lparr> awaiting_course_code := False, stored_intent := None, stored_platform := None \<rparr>,
            (Some course_code, stored_intent s, stored_platform s))"
    using assms by (simp add: state_handling_def)
  have ct: "conversation_turn detect_intent idle_rest retrieve_for s message =
           (s\<lparr> awaiting_course_code := False, stored_intent := None, stored_platform := None \<rparr>,
            retrieve_for (Some course_code, stored_intent s, stored_platform s))"
    using assms(1) by (simp add: conversation_turn_def st)
  have ne: "\<not> course_code_word message \<longrightarrow> course_code \<noteq> message"
    using w(1) by blast
  from st ct sub w(1) chars ne show ?thesis
    by blast
qed

theorem slot_value_is_extracted_witness:
  "extract_course_code ''it's BIO101 for biology'' = Some ''BIO101'' \<and>
   conversation_turn (\<lambda>s m. (s, (None, None, None))) (\<lambda>s found m. (s, found)) (\<lambda>found. found)
     \<lparr> history = [\<lparr> role = ''assistant'', turn_content = ''What is your course code?'' \<rparr>],
       awaiting_course_code = True, stored_intent = Some ''IA_ACCESS_ISSUE'',
       stored_platform = Some ''CENGAGE'', last_activity = 0 \<rparr>
     ''it's BIO101 for biology''
   = (\<lparr> history = [\<lparr> role = ''assistant'', turn_content = ''What is your course code?'' \<rparr>],
        awaiting_course_code = False, stored_intent = None, stored_platform = None,
        last_activity = 0 \<rparr>,
      (Some ''BIO101'', Some ''IA_ACCESS_ISSUE'', Some ''CENGAGE'')) \<and>
   sublist ''BIO101'' ''it's BIO101 for biology'' \<and>
   ''BIO101'' \<noteq> ''it's BIO101 for biology''"
proof -
  have e: "extract_course_code ''it's BIO101 for biology'' = Some ''BIO101''"
    by code_simp
  have a: "awaiting_course_code
     \<lparr> history = [\<lparr> role = ''assistant'', turn_content = ''What is your course code?'' \<rparr>],
       awaiting_course_code = True, stored_intent = Some ''IA_ACCESS_ISSUE'',
       stored_platform = Some ''CENGAGE'', last_activity = 0 \<rparr>"
    by simp
  note w = slot_value_is_extracted [where message = "''it's BIO101 for biology''"
            and course_code = "''BIO101''" and detect_intent = "\<lambda>s m. (s, (None, None, None))"
            and idle_rest = "\<lambda>s found m. (s, found)" and retrieve_for = "\<lambda>found. found", OF a e]
  have n: "''BIO101'' \<noteq> ''it's BIO101 for biology''"
    by simp
  show ?thesis
    apply (intro conjI)
       apply (rule e)
      apply (rule w [THEN conjunct2, THEN conjunct1, simplified])
     apply (rule w [THEN conjunct2, THEN conjunct2, THEN conjunct1])
    apply (rule n)
    done
qed

text \<open>
  C2. The branch is chosen on the session as it was, and the message is appended once,
  after the state handling; but it is appended on both branches. For a session that
  awaits the course code, the reply "BIO101" ends up in the history.
\<close>

theorem slot_fill_fragment_in_history:
  "history (fst (handle_state_then_append extract_course_code (\<lambda>s m. (s, (None, None, None)))
     \<lparr> history = [\<lparr> role = ''assistant'', turn_content = ''What is your course code?'' \<rparr>],
       awaiting_course_code = True, stored_intent = Some ''IA_ACCESS_ISSUE'',
       stored_platform = Some ''CENGAGE'', last_activity = 0 \<rparr>
     ''BIO101''))
   = [\<lparr> role = ''assistant'', turn_content = ''What is your course code?'' \<rparr>,
      \<lparr> role = ''user'', turn_content = ''BIO101'' \<rparr>]"
  by (simp add: handle_state_then_append_def state_handling_def)

section \<open>The article link of a chunk\<close>

text \<open>
  C6, as the claim states it, fails. A chunk that has a bare marker line before the quoted
  link yields the text of the second marker and not the URL; a chunk without any quoted
  URL, whose marker is followed by plain words, yields those words and not
  \<^verbatim>\<open>None\<close>; and an empty quoted link yields the empty string.
\<close>

theorem article_link_counterexample:
  "extract_article_link (''Article link:'' @ [CHR 0x0A] @ ''Article link: '' @ [CHR 0x22] @ ''https://x'' @ [CHR 0x22])
     = Some ''Article link:'' \<and>
   extract_article_link ''Article link: see the store page'' = Some ''see the store page'' \<and>
   extract_article_link (''Article link: '' @ [CHR 0x22, CHR 0x22]) = Some []"
  by (intro conjI; code_simp)

lemma match_here_Nil: "match_here [] = None"
  by (simp add: match_here_def link_marker_def)

lemma re_search_match: "match_here s = Some g \<Longrightarrow> re_search s = Some g"
  by (cases s) (simp_all add: match_here_Nil)

lemma re_search_skip:
  "\<forall>i < length pre. \<not> prefix link_marker (drop i (pre @ rest)) \<Longrightarrow>
   re_search (pre @ rest) = re_search rest"
proof (induction pre)
  case Nil
  then show ?case by simp
next
  case (Cons c pre)
  have "\<not> prefix link_marker (drop 0 ((c # pre) @ rest))"
    using Cons.prems by blast
  then have m: "match_here (c # pre @ rest) = None"
    by (simp add: match_here_def)
  have "\<forall>i < length pre. \<not> prefix link_marker (drop i (pre @ rest))"
  proof (intro allI impI)
    fix i assume "i < length pre"
    then have "\<not> prefix link_marker (drop (Suc i) ((c # pre) @ rest))"
      using Cons.prems by (metis Suc_less_eq length_Cons)
    then show "\<not> prefix link_marker (drop i (pre @ rest))" by simp
  qed
  then have "re_search (pre @ rest) = re_search rest" by (rule Cons.IH)
  with m show ?case by simp
qed

lemma group_from_url:
  "url \<noteq> [] \<Longrightarrow> \<forall>c \<in> set url. link_char c \<Longrightarrow> group_from (url @ CHR 0x22 # post) = Some url"
  by (simp add: group_from_def takeWhile_append2 link_char_def takeWhile_tail)

lemma match_here_quoted:
  assumes "url \<noteq> []" and "\<forall>c \<in> set url. link_char c"
  shows "match_here (link_marker @ '' '' @ [CHR 0x22] @ url @ [CHR 0x22] @ post) = Some url"
proof -
  have q: "\<not> isspace (CHR 0x22)" and sp: "isspace (CHR '' '')"
    by (simp_all add: isspace_def whitespace_chars_def)
  have "quoted_group (CHR 0x22 # url @ CHR 0x22 # post) = Some url"
    using group_from_url [OF assms] by (simp add: quoted_group_def)
  then show ?thesis
    by (simp add: match_here_def link_marker_def q sp)
qed

lemma re_search_no_marker: "\<not> contains link_marker chunk \<Longrightarrow> re_search chunk = None"
  by (induction chunk) (auto simp: match_here_def)

lemma strip_no_outer_space:
  assumes "url \<noteq> []" and "\<not> isspace (hd url)" and "\<not> isspace (last url)"
  shows "strip url = url"
proof -
  have a: "dropWhile isspace url = url"
    using assms(1,2) by (cases url) simp_all
  have "rev url \<noteq> []" and "\<not> isspace (hd (rev url))"
    using assms(1,3) by (simp_all add: hd_rev)
  then have "dropWhile isspace (rev url) = rev url"
    by (cases "rev url") simp_all
  with a show ?thesis by (simp add: strip_def)
qed

text \<open>
  C6, amended. If the first occurrence of the marker \<^verbatim>\<open>Article link:\<close> in the chunk
  text is followed by a space and a quoted URL, the URL being a non-empty text without
  quote or newline, the article link is that URL stripped of surrounding whitespace (the
  URL itself when it has none); if the marker does not occur in the chunk the article
  link is \<^verbatim>\<open>None\<close>. The extraction is a total function: a failed parse is no
  error.
\<close>

theorem article_link_round_trip:
  "(\<forall>pre url post.
      chunk = pre @ link_marker @ '' '' @ [CHR 0x22] @ url @ [CHR 0x22] @ post \<and>
      (\<forall>i < length pre. \<not> prefix link_marker (drop i chunk)) \<and>
      url \<noteq> [] \<and> (\<forall>c \<in> set url. link_char c)
      \<longrightarrow> extract_article_link chunk = Some (strip url) \<and>
          (\<not> isspace (hd url) \<and> \<not> isspace (last url) \<longrightarrow> extract_article_link chunk = Some url)) \<and>
   (\<not> contains link_marker chunk \<longrightarrow> extract_article_link chunk = None)"
proof (intro conjI allI impI)
  fix pre url post
  assume h: "chunk = pre @ link_marker @ '' '' @ [CHR 0x22] @ url @ [CHR 0x22] @ post \<and>
      (\<forall>i < length pre. \<not> prefix link_marker (drop i chunk)) \<and>
      url \<noteq> [] \<and> (\<forall>c \<in> set url. link_char c)"
  let ?rest = "link_marker @ '' '' @ [CHR 0x22] @ url @ [CHR 0x22] @ post"
  have c: "chunk = pre @ ?rest"
    using h by simp
  have "\<forall>i < length pre. \<not> prefix link_marker (drop i (pre @ ?rest))"
    using h unfolding c [symmetric] by blast
  then have "re_search (pre @ ?rest) = re_search ?rest"
    by (rule re_search_skip)
  moreover have "re_search ?rest = Some url"
    using h by (intro re_search_match match_here_quoted) simp_all
  ultimately have r: "re_search chunk = Some url"
    using h by simp
  then show e: "extract_article_link chunk = Some (strip url)"
    by (simp add: extract_article_link_def)
  assume "\<not> isspace (hd url) \<and> \<not> isspace (last url)"
  then have "strip url = url"
    using h strip_no_outer_space by blast
  with e show "extract_article_link chunk = Some url" by simp
next
  assume "\<not> contains link_marker chunk"
  then show "extract_article_link chunk = None"
    by (simp add: extract_article_link_def re_search_no_marker)
qed

theorem article_link_round_trip_witness:
  "extract_article_link (''Q: refunds?'' @ [CHR 0x0A] @ ''Article link: '' @ [CHR 0x22] @ ''https://x'' @ [CHR 0x22] @ [CHR 0x0A] @ ''A: yes'')
     = Some ''https://x'' \<and>
   extract_article_link ''Returns are accepted within 30 days.'' = None"
proof -
  have n: "\<not> contains link_marker ''Returns are accepted within 30 days.''"
    by (simp add: link_marker_def)
  have f: "\<forall>i < length (''Q: refunds?'' @ [CHR 0x0A]).
      \<not> prefix link_marker (drop i (''Q: refunds?'' @ [CHR 0x0A] @ ''Article link: '' @ [CHR 0x22] @ ''https://x'' @ [CHR 0x22] @ [CHR 0x0A] @ ''A: yes''))"
    by (simp add: link_marker_def All_less_Suc eval_nat_numeral)
  have c: "\<forall>c \<in> set ''https://x''. link_char c"
    by (simp add: link_char_def)
  have o: "\<not> isspace (hd ''https://x'') \<and> \<not> isspace (last ''https://x'')"
    by (simp add: isspace_def whitespace_chars_def)
  note w = article_link_round_trip
     [where chunk = "''Q: refunds?'' @ [CHR 0x0A] @ ''Article link: '' @ [CHR 0x22] @ ''https://x'' @ [CHR 0x22] @ [CHR 0x0A] @ ''A: yes''",
      THEN conjunct1, rule_format, of "''Q: refunds?'' @ [CHR 0x0A]" "''https://x''" "[CHR 0x0A] @ ''A: yes''"]
  have a: "extract_article_link (''Q: refunds?'' @ [CHR 0x0A] @ ''Article link: '' @ [CHR 0x22] @ ''https://x'' @ [CHR 0x22] @ [CHR 0x0A] @ ''A: yes'')
     = Some ''https://x''"
    apply (rule w [THEN conjunct2, rule_format])
    using f c o apply (simp_all add: link_marker_def)
    done
  note v = article_link_round_trip
     [where chunk = "''Returns are accepted within 30 days.''", THEN conjunct2, rule_format, OF n]
  from a v show ?thesis by simp
qed

section \<open>Searching an index\<close>















lemma selected_prebuilt: "fst (selected R query collection platform_given) \<in> prebuilt_indices R"
  by (auto simp: selected_def select_index_def prebuilt_indices_def split: option.splits if_splits)



lemma example_retriever_loaded:
  "FAQRetriever_init example_model (\<lambda>q. ''faqs'') ''data/faqs/faiss_index'' example_disk
     \<lparr> loaded_faq_chunks = [''Returns are accepted within 30 days.''],
       loaded_instruction_chunks = [''Open Connect from Blackboard.'', ''Open MindTap from Blackboard.''],
       loaded_cengage_chunks = [''Open MindTap from Blackboard.''],
       loaded_mcgraw_chunks = [] \<rparr>
   = ([Read ''data/faqs/faiss_index'', Read INSTRUCTIONS_INDEX_PATH,
       Read ''data/instructions/faiss_index_cengage'', Read ''data/instructions/faiss_index_mcgraw''],
      Inr example_retriever)"
  by (simp add: FAQRetriever_init_def example_disk_def example_retriever_def INSTRUCTIONS_INDEX_PATH_def)



section \<open>What a retrieval does and returns\<close>

text \<open>
  C3. Every call of \<^verbatim>\<open>retrieve\<close> makes exactly one call of the sentence model, on the
  query, and exactly one search, on an index the retriever has held since it was loaded;
  it encodes no chunks and builds no index. Loading a retriever only reads index files:
  every index it holds is one of the files written at ingestion.
\<close>

theorem retrieve_one_embedding_one_search:
  "fst (retrieve return_result R query k collection platform_given)
     = [Encoded [query] True, Searched (fst (selected R query collection platform_given)) k] \<and>
   fst (selected R query collection platform_given) \<in> prebuilt_indices R \<and>
   (\<forall>L. FAQRetriever_init encode select faq_path disk chunks = (events, Inr L) \<longrightarrow>
      prebuilt_indices L \<subseteq> ran disk \<and> (\<forall>e \<in> set events. \<exists>path. e = Read path))"
proof (intro conjI allI impI)
  show "fst (retrieve return_result R query k collection platform_given)
     = [Encoded [query] True, Searched (fst (selected R query collection platform_given)) k]"
    by (simp add: retrieve_def selected_def embed_and_search_def Let_def split: prod.splits)
  show "fst (selected R query collection platform_given) \<in> prebuilt_indices R"
    by (rule selected_prebuilt)
next
  fix L
  assume i: "FAQRetriever_init encode select faq_path disk chunks = (events, Inr L)"
  then show "prebuilt_indices L \<subseteq> ran disk"
    by (auto simp: FAQRetriever_init_def prebuilt_indices_def ran_def split: option.splits)
  from i show "\<forall>e \<in> set events. \<exists>path. e = Read path"
    by (auto simp: FAQRetriever_init_def split: option.splits)
qed

theorem retrieve_one_embedding_one_search_witness:
  "fst (retrieve stand_in_return example_retriever ''I cannot access Cengage'' 1 ''instructions'' (Some ''CENGAGE''))
     = [Encoded [''I cannot access Cengage''] True, Searched (IndexFlatIP [[0, 1]]) 1] \<and>
   fst (retrieve stand_in_return example_retriever ''What is your return policy?'' 1 ''auto'' None)
     = [Encoded [''What is your return policy?''] True, Searched (IndexFlatIP [[1, 0]]) 1] \<and>
   prebuilt_indices example_retriever \<subseteq> ran example_disk"
proof -
  have s1: "selected example_retriever ''I cannot access Cengage'' ''instructions'' (Some ''CENGAGE'')
              = (IndexFlatIP [[0, 1]], [''Open MindTap from Blackboard.''])"
    by (simp add: selected_def select_index_def example_retriever_def)
  have s2: "selected example_retriever ''What is your return policy?'' ''auto'' None
              = (IndexFlatIP [[1, 0]], [''Returns are accepted within 30 days.''])"
    by (simp add: selected_def select_index_def example_retriever_def)
  note a = retrieve_one_embedding_one_search
     [where R = example_retriever and query = "''I cannot access Cengage''" and k = 1
        and return_result = stand_in_return
        and collection = "''instructions''" and platform_given = "Some ''CENGAGE''", THEN conjunct1]
  note b = retrieve_one_embedding_one_search
     [where R = example_retriever and query = "''What is your return policy?''" and k = 1
        and return_result = stand_in_return
        and collection = "''auto''" and platform_given = None, THEN conjunct1]
  note c = retrieve_one_embedding_one_search
     [THEN conjunct2, THEN conjunct2, rule_format, OF example_retriever_loaded, THEN conjunct1]
  from a b c show ?thesis
    by (simp add: s1 s2)
qed







end
